theory Spec2Isabelle
  imports Main "HOL-Library.Word"
begin

section \<open>Data model\<close>

text \<open>
  The diagnostic provider of the extension (\<^verbatim>\<open>src/diagnostics.ts\<close>) is embedded as
  functions over an explicit state. Line texts are JavaScript strings: lists of UTF-16
  code units, so that \<^verbatim>\<open>.length\<close> and indexing count what the source counts. Paths,
  URIs and messages are only compared and concatenated and are kept as HOL strings.
\<close>

type_synonym jsText = "16 word list"

text \<open>
  A value thrown by a callee: an \<^verbatim>\<open>Error\<close> object with its message, or any other
  value with its \<^verbatim>\<open>String(...)\<close> rendering.
\<close>

datatype thrown = ErrorObject string | OtherValue string

text \<open>The problem records returned by the rule engine (\<^verbatim>\<open>LintProblem\<close>).\<close>

record LintProblem =
  line :: int
  column :: int
  message :: string
  level :: string
  rule :: "string option"

text \<open>A range of the host: its start and its end position.\<close>

record vsRange =
  startLine :: nat
  startCharacter :: nat
  endLine :: nat
  endCharacter :: nat

datatype DiagnosticSeverity = Error | Warning | Information | Hint

record Diagnostic =
  drange :: vsRange
  dmessage :: string
  severity :: DiagnosticSeverity
  source :: "string option"
  code :: "string option"

text \<open>
  A text document of the host: its URI (as a string, the key of both the timer map and
  the diagnostic collection), its file-system path, the result of reading its text and
  its lines.
\<close>

record TextDocument =
  uri :: string
  fsPath :: string
  getText :: "thrown + jsText"
  docLines :: "jsText list"

definition lineCount :: "TextDocument \<Rightarrow> nat" where
  "lineCount document = length (docLines document)"

text \<open>\<^verbatim>\<open>document.lineAt(n)\<close> throws for an index outside the document.\<close>

definition lineAt :: "TextDocument \<Rightarrow> int \<Rightarrow> thrown + jsText" where
  "lineAt document n =
     (if 0 \<le> n \<and> n < int (lineCount document)
      then Inr (docLines document ! nat n)
      else Inl (ErrorObject ''Illegal value for `line`''))"

section \<open>Mapping a problem to a diagnostic\<close>

text \<open>The characters matched by the regular expression \<^verbatim>\<open>/\s/\<close>.\<close>

definition isWhitespace :: "16 word \<Rightarrow> bool" where
  "isWhitespace c \<longleftrightarrow>
     c \<in> {0x09, 0x0A, 0x0B, 0x0C, 0x0D, 0x20, 0xA0, 0x1680, 0x2028, 0x2029,
          0x202F, 0x205F, 0x3000, 0xFEFF}
     \<or> (0x2000 \<le> c \<and> c \<le> 0x200A)"

text \<open>
  The loop \<^verbatim>\<open>while (endColumn < lineText.length && !/\s/.test(lineText[endColumn]))
  endColumn++\<close>.
\<close>

function extendToWordEnd :: "jsText \<Rightarrow> nat \<Rightarrow> nat" where
  "extendToWordEnd lineText endColumn =
     (if endColumn < length lineText \<and> \<not> isWhitespace (lineText ! endColumn)
      then extendToWordEnd lineText (endColumn + 1)
      else endColumn)"
  by pat_completeness auto
termination
  by (relation "measure (\<lambda>(lineText, endColumn). length lineText - endColumn)") auto

declare extendToWordEnd.simps [simp del]

text \<open>
  The end column of the range: the scan, then the correction when nothing was consumed
  (\<^verbatim>\<open>if (endColumn === column) endColumn = Math.min(column + 1, lineText.length)\<close>).
\<close>

definition wordEndColumn :: "jsText \<Rightarrow> nat \<Rightarrow> nat" where
  "wordEndColumn lineText column0 =
     (let scanned = extendToWordEnd lineText column0
      in if scanned = column0 then min (column0 + 1) (length lineText) else scanned)"

text \<open>
  The host's constructor \<^verbatim>\<open>new vscode.Range(startLine, startCharacter, endLine,
  endCharacter)\<close>: a range whose start is not before or equal to its end is built with the
  two positions swapped.
\<close>

definition newRange :: "nat \<Rightarrow> nat \<Rightarrow> nat \<Rightarrow> nat \<Rightarrow> vsRange" where
  "newRange sl sc el ec =
     (if sl < el \<or> (sl = el \<and> sc \<le> ec)
      then \<lparr> startLine = sl, startCharacter = sc, endLine = el, endCharacter = ec \<rparr>
      else \<lparr> startLine = el, startCharacter = ec, endLine = sl, endCharacter = sc \<rparr>)"

text \<open>
  The host's constructor \<^verbatim>\<open>new vscode.Diagnostic(range, message, severity)\<close>: it throws
  a \<^verbatim>\<open>TypeError\<close> when the message is the empty string, and leaves source and code unset.
\<close>

definition newDiagnostic :: "vsRange \<Rightarrow> string \<Rightarrow> DiagnosticSeverity \<Rightarrow> thrown + Diagnostic" where
  "newDiagnostic rng msg sev =
     (if msg = [] then Inl (ErrorObject ''message must be set'')
      else Inr \<lparr> drange = rng, dmessage = msg, severity = sev,
                 source = None, code = None \<rparr>)"

definition problemToDiagnostic :: "LintProblem \<Rightarrow> TextDocument \<Rightarrow> thrown + Diagnostic" where
  "problemToDiagnostic problem document =
     (let line0 = nat (max 0 (line problem - 1));
          column0 = nat (max 0 (column problem - 1))
      in case lineAt document (min (int line0) (int (lineCount document) - 1)) of
           Inl e \<Rightarrow> Inl e
         | Inr lineText \<Rightarrow>
             let range0 = newRange line0 column0 line0 (wordEndColumn lineText column0);
                 severity0 = (if level problem = ''error'' then Error else Warning)
             in case newDiagnostic range0 (message problem) severity0 of
                  Inl e \<Rightarrow> Inl e
                | Inr diagnostic \<Rightarrow>
                    Inr (diagnostic
                           \<lparr> source := Some ''yamllint'',
                             code := (case rule problem of
                                        None \<Rightarrow> None
                                      | Some r \<Rightarrow> if r = [] then None else Some r) \<rparr>))"

text \<open>The line of the document whose text is scanned for a problem.\<close>

definition scannedLine :: "LintProblem \<Rightarrow> TextDocument \<Rightarrow> nat" where
  "scannedLine problem document =
     min (nat (max 0 (line problem - 1))) (lineCount document - 1)"

section \<open>The provider, the host and the rule engine\<close>

text \<open>
  A configuration object of the rule engine. Objects are compared by identity in the
  source, so each object carries the number under which it was allocated, next to its
  parsed content.
\<close>

record YamlLintConfig =
  ident :: nat
  rules :: string

text \<open>
  The \<^verbatim>\<open>yamllint\<close> section of the settings; \<^verbatim>\<open>config.get(key, default)\<close> yields the
  default where a key is not set.
\<close>

record Settings =
  enableSetting :: "bool option"
  configSetting :: "string option"
  debounceTimeSetting :: "int option"

text \<open>
  What the provider reads from its surroundings: the settings, the workspace folder of a
  URI, the path functions of Node, the file system, the parser of the engine (on a file
  and on a text) and the engine's \<^verbatim>\<open>runAll\<close>.
\<close>

record Env =
  settings :: Settings
  workspaceFolder :: "string \<Rightarrow> string option"
  pathResolve :: "string \<Rightarrow> string \<Rightarrow> string"
  pathJoin :: "string \<Rightarrow> string \<Rightarrow> string"
  existsSync :: "string \<Rightarrow> bool"
  parseFile :: "string \<Rightarrow> thrown + string"
  parseText :: "string \<Rightarrow> thrown + string"
  runAll :: "jsText \<Rightarrow> YamlLintConfig \<Rightarrow> string \<Rightarrow> thrown + LintProblem list"

text \<open>
  A timer that the provider has started with \<^verbatim>\<open>setTimeout\<close>: its handle, the time at
  which it becomes due and the document captured by its callback.
\<close>

record Timeout =
  handle :: nat
  due :: nat
  target :: TextDocument

text \<open>
  The fields of \<^verbatim>\<open>YamlLintDiagnosticProvider\<close>, then the parts of the host that its
  methods change (the table of the provider's timers that have been started and have
  neither run nor been cleared, the clock, the allocation counter of configuration
  objects), then two traces: the documents \<^verbatim>\<open>lint\<close> was called with and the calls of
  \<^verbatim>\<open>runAll\<close>.
\<close>

record Provider =
  diagnosticCollection :: "string \<rightharpoonup> Diagnostic list"
  debounceTimers :: "string \<rightharpoonup> nat"
  configCache :: "string \<rightharpoonup> YamlLintConfig option"
  debounceTime :: int
  timeouts :: "Timeout list"
  nextHandle :: nat
  clock :: nat
  nextObject :: nat
  lintCalls :: "TextDocument list"
  engineCalls :: "(jsText \<times> YamlLintConfig \<times> string) list"

definition CONFIG_FILE_NAMES :: "string list" where
  "CONFIG_FILE_NAMES = [''.yamllint'', ''.yamllint.yaml'', ''.yamllint.yml'', ''.yamllint.json'']"

definition DEFAULT_CONFIG :: string where
  "DEFAULT_CONFIG = concat (map (\<lambda>l. l @ [CHR 0x0A])
     [''---'',
      ''yaml-files:'',
      ''  - '' @ [CHR 0x27] @ ''*.yaml'' @ [CHR 0x27],
      ''  - '' @ [CHR 0x27] @ ''*.yml'' @ [CHR 0x27],
      ''  - '' @ [CHR 0x27] @ ''.yamllint'' @ [CHR 0x27],
      [],
      ''rules:'',
      ''  anchors: enable'',
      ''  braces: enable'',
      ''  brackets: enable'',
      ''  colons: enable'',
      ''  commas: enable'',
      ''  comments:'',
      ''    level: warning'',
      ''  comments-indentation:'',
      ''    level: warning'',
      ''  document-end: disable'',
      ''  document-start:'',
      ''    level: warning'',
      ''  empty-lines: enable'',
      ''  empty-values: disable'',
      ''  float-values: disable'',
      ''  hyphens: enable'',
      ''  indentation: enable'',
      ''  key-duplicates: enable'',
      ''  key-ordering: disable'',
      ''  line-length: enable'',
      ''  new-line-at-end-of-file: enable'',
      ''  new-lines: enable'',
      ''  octal-values: disable'',
      ''  quoted-strings: disable'',
      ''  trailing-spaces: enable'',
      ''  truthy:'',
      ''    level: warning''])"

definition defaultKey :: string where
  "defaultKey = ''__default__''"

definition getEnable :: "Env \<Rightarrow> bool" where
  "getEnable env = (case enableSetting (settings env) of None \<Rightarrow> True | Some b \<Rightarrow> b)"

definition getConfig :: "Env \<Rightarrow> string" where
  "getConfig env = (case configSetting (settings env) of None \<Rightarrow> [] | Some p \<Rightarrow> p)"

definition getDebounceTime :: "Env \<Rightarrow> int" where
  "getDebounceTime env = (case debounceTimeSetting (settings env) of None \<Rightarrow> 300 | Some d \<Rightarrow> d)"

subsection \<open>Timers of the host\<close>

text \<open>
  Node sets a delay below 1 or above \<open>2\<^sup>3\<^sup>1 - 1\<close> to 1 millisecond.
\<close>

definition timerDelay :: "int \<Rightarrow> nat" where
  "timerDelay delay = (if delay < 1 \<or> 2147483647 < delay then 1 else nat delay)"

definition setTimeout :: "TextDocument \<Rightarrow> int \<Rightarrow> Provider \<Rightarrow> nat \<times> Provider" where
  "setTimeout document delay s =
     (nextHandle s,
      s\<lparr> timeouts := timeouts s @ [\<lparr> handle = nextHandle s,
                                      due = clock s + timerDelay delay,
                                      target = document \<rparr>],
         nextHandle := nextHandle s + 1 \<rparr>)"

definition clearTimeout :: "nat \<Rightarrow> Provider \<Rightarrow> Provider" where
  "clearTimeout timer s = s\<lparr> timeouts := filter (\<lambda>t. handle t \<noteq> timer) (timeouts s) \<rparr>"

subsection \<open>Configuration resolution\<close>

text \<open>The object that a successful parse allocates in a state.\<close>

definition newObject :: "string \<Rightarrow> Provider \<Rightarrow> YamlLintConfig" where
  "newObject r s = \<lparr> ident = nextObject s, rules = r \<rparr>"

text \<open>
  \<^verbatim>\<open>YamlLintConfig.fromFile(path)\<close> and \<^verbatim>\<open>new YamlLintConfig(text)\<close>: a successful
  parse allocates a new object.
\<close>

definition fromFile :: "Env \<Rightarrow> string \<Rightarrow> Provider \<Rightarrow> (thrown + YamlLintConfig) \<times> Provider" where
  "fromFile env path s =
     (case parseFile env path of
        Inl e \<Rightarrow> (Inl e, s)
      | Inr r \<Rightarrow> (Inr (newObject r s), s\<lparr> nextObject := nextObject s + 1 \<rparr>))"

definition newYamlLintConfig :: "Env \<Rightarrow> string \<Rightarrow> Provider \<Rightarrow> (thrown + YamlLintConfig) \<times> Provider" where
  "newYamlLintConfig env content s =
     (case parseText env content of
        Inl e \<Rightarrow> (Inl e, s)
      | Inr r \<Rightarrow> (Inr (newObject r s), s\<lparr> nextObject := nextObject s + 1 \<rparr>))"

text \<open>
  \<^verbatim>\<open>if (cache.has(key)) { const cached = cache.get(key); if (cached) return cached; }\<close>:
  only a present, non-null entry is returned.
\<close>

definition cachedConfig :: "Provider \<Rightarrow> string \<Rightarrow> YamlLintConfig option" where
  "cachedConfig s key = (case configCache s key of Some (Some c) \<Rightarrow> Some c | _ \<Rightarrow> None)"

text \<open>
  The workspace path of a document, where it is truthy (a folder exists and its path is
  not the empty string).
\<close>

definition workspacePathOf :: "Env \<Rightarrow> TextDocument \<Rightarrow> string option" where
  "workspacePathOf env document =
     (case workspaceFolder env (uri document) of
        None \<Rightarrow> None
      | Some w \<Rightarrow> if w = [] then None else Some w)"

definition resolvedPathOf :: "Env \<Rightarrow> string option \<Rightarrow> string" where
  "resolvedPathOf env workspacePath =
     (case workspacePath of
        Some w \<Rightarrow> pathResolve env w (getConfig env)
      | None \<Rightarrow> getConfig env)"

text \<open>
  The block for the user-specified path: \<open>Some\<close> is the returned configuration,
  \<open>None\<close> means that control goes on to the search in the workspace.
\<close>

definition loadUserConfig :: "Env \<Rightarrow> string option \<Rightarrow> Provider \<Rightarrow> YamlLintConfig option \<times> Provider" where
  "loadUserConfig env workspacePath s =
     (if getConfig env = [] then (None, s)
      else
        let resolvedPath = resolvedPathOf env workspacePath
        in case cachedConfig s resolvedPath of
             Some cached \<Rightarrow> (Some cached, s)
           | None \<Rightarrow>
               (case fromFile env resolvedPath s of
                  (Inr config, s') \<Rightarrow>
                    (Some config,
                     s'\<lparr> configCache := (configCache s')(resolvedPath \<mapsto> Some config) \<rparr>)
                | (Inl e, s') \<Rightarrow> (None, s')))"

text \<open>The loop over the candidate file names in the workspace folder.\<close>

fun searchWorkspace :: "Env \<Rightarrow> string \<Rightarrow> string list \<Rightarrow> Provider \<Rightarrow> YamlLintConfig option \<times> Provider" where
  "searchWorkspace env workspacePath [] s = (None, s)"
| "searchWorkspace env workspacePath (configName # names) s =
     (let configPath = pathJoin env workspacePath configName
      in case cachedConfig s configPath of
           Some cached \<Rightarrow> (Some cached, s)
         | None \<Rightarrow>
             if existsSync env configPath
             then (case fromFile env configPath s of
                     (Inr config, s') \<Rightarrow>
                       (Some config,
                        s'\<lparr> configCache := (configCache s')(configPath \<mapsto> Some config) \<rparr>)
                   | (Inl e, s') \<Rightarrow> searchWorkspace env workspacePath names s')
             else searchWorkspace env workspacePath names s)"

text \<open>The fallback: the cached default, or a new object parsed from the inlined text.\<close>

definition loadDefaultConfig :: "Env \<Rightarrow> Provider \<Rightarrow> (thrown + YamlLintConfig) \<times> Provider" where
  "loadDefaultConfig env s =
     (case cachedConfig s defaultKey of
        Some cached \<Rightarrow> (Inr cached, s)
      | None \<Rightarrow>
          (case newYamlLintConfig env DEFAULT_CONFIG s of
             (Inl e, s') \<Rightarrow> (Inl e, s')
           | (Inr config, s') \<Rightarrow>
               (Inr config,
                s'\<lparr> configCache := (configCache s')(defaultKey \<mapsto> Some config) \<rparr>)))"

definition getYamlLintConfig :: "Env \<Rightarrow> TextDocument \<Rightarrow> Provider \<Rightarrow> (thrown + YamlLintConfig) \<times> Provider" where
  "getYamlLintConfig env document s =
     (let workspacePath = workspacePathOf env document
      in case loadUserConfig env workspacePath s of
           (Some config, s1) \<Rightarrow> (Inr config, s1)
         | (None, s1) \<Rightarrow>
             (case (case workspacePath of
                      Some w \<Rightarrow> searchWorkspace env w CONFIG_FILE_NAMES s1
                    | None \<Rightarrow> (None, s1)) of
                (Some config, s2) \<Rightarrow> (Inr config, s2)
              | (None, s2) \<Rightarrow> loadDefaultConfig env s2))"

text \<open>
  Ways in which a step of the resolution does not yield a configuration: no
  user-specified path is set, or it is not cached and does not load; a candidate path is
  not cached and does not exist or does not load.
\<close>

definition userConfigFails :: "Env \<Rightarrow> TextDocument \<Rightarrow> Provider \<Rightarrow> bool" where
  "userConfigFails env document s \<longleftrightarrow>
     getConfig env = []
     \<or> (cachedConfig s (resolvedPathOf env (workspacePathOf env document)) = None
        \<and> isl (parseFile env (resolvedPathOf env (workspacePathOf env document))))"

definition candidateFails :: "Env \<Rightarrow> Provider \<Rightarrow> string \<Rightarrow> bool" where
  "candidateFails env s path \<longleftrightarrow>
     cachedConfig s path = None \<and> (\<not> existsSync env path \<or> isl (parseFile env path))"

text \<open>No candidate in the workspace folder yields a configuration (or there is no folder).\<close>

definition searchFails :: "Env \<Rightarrow> TextDocument \<Rightarrow> Provider \<Rightarrow> bool" where
  "searchFails env document s \<longleftrightarrow>
     (case workspacePathOf env document of
        None \<Rightarrow> True
      | Some w \<Rightarrow> \<forall>n \<in> set CONFIG_FILE_NAMES. candidateFails env s (pathJoin env w n))"

text \<open>
  The state after a configuration parsed to \<open>r\<close> has been allocated and stored in the
  cache under a key.
\<close>

definition cacheNew :: "string \<Rightarrow> string \<Rightarrow> Provider \<Rightarrow> Provider" where
  "cacheNew key r s =
     s\<lparr> nextObject := nextObject s + 1,
        configCache := (configCache s)(key \<mapsto> Some (newObject r s)) \<rparr>"

subsection \<open>The methods of the provider\<close>

definition updateConfiguration :: "Env \<Rightarrow> Provider \<Rightarrow> Provider" where
  "updateConfiguration env s =
     s\<lparr> debounceTime := getDebounceTime env, configCache := Map.empty \<rparr>"

text \<open>The constructor: an empty collection, empty maps, then \<^verbatim>\<open>updateConfiguration\<close>.\<close>

definition newProvider :: "Env \<Rightarrow> Provider" where
  "newProvider env =
     updateConfiguration env
       \<lparr> diagnosticCollection = Map.empty, debounceTimers = Map.empty,
         configCache = Map.empty, debounceTime = 300,
         timeouts = [], nextHandle = 0, clock = 0, nextObject = 0,
         lintCalls = [], engineCalls = [] \<rparr>"

definition clear :: "TextDocument \<Rightarrow> Provider \<Rightarrow> Provider" where
  "clear document s =
     (let s1 = s\<lparr> diagnosticCollection := (diagnosticCollection s)(uri document := None) \<rparr>
      in case debounceTimers s1 (uri document) of
           None \<Rightarrow> s1
         | Some timer \<Rightarrow>
             (clearTimeout timer s1)
               \<lparr> debounceTimers := (debounceTimers s1)(uri document := None) \<rparr>)"

text \<open>\<^verbatim>\<open>problems.map(problem => this.problemToDiagnostic(problem, document))\<close>.\<close>

fun mapProblems :: "LintProblem list \<Rightarrow> TextDocument \<Rightarrow> thrown + Diagnostic list" where
  "mapProblems [] document = Inr []"
| "mapProblems (problem # problems) document =
     (case problemToDiagnostic problem document of
        Inl e \<Rightarrow> Inl e
      | Inr d \<Rightarrow>
          (case mapProblems problems document of
             Inl e \<Rightarrow> Inl e
           | Inr ds \<Rightarrow> Inr (d # ds)))"

text \<open>
  The diagnostic built in the \<^verbatim>\<open>catch\<close> block of \<^verbatim>\<open>lint\<close>. Its message starts with
  a fixed prefix and its range is from (0, 0) to (0, 0), so the constructors neither throw
  nor swap.
\<close>

definition errorDiagnostic :: "thrown \<Rightarrow> Diagnostic" where
  "errorDiagnostic error =
     \<lparr> drange = \<lparr> startLine = 0, startCharacter = 0, endLine = 0, endCharacter = 0 \<rparr>,
       dmessage = ''yamllint error: '' @
                  (case error of ErrorObject m \<Rightarrow> m | OtherValue v \<Rightarrow> v),
       severity = Error,
       source = Some ''yamllint'',
       code = None \<rparr>"

text \<open>
  The \<^verbatim>\<open>try\<close> block of \<^verbatim>\<open>lint\<close> up to the computed diagnostics: \<open>Inl\<close> is the value
  thrown by the first step that fails.
\<close>

definition tryLint :: "Env \<Rightarrow> TextDocument \<Rightarrow> Provider \<Rightarrow> (thrown + Diagnostic list) \<times> Provider" where
  "tryLint env document s =
     (case getYamlLintConfig env document s of
        (Inl e, s1) \<Rightarrow> (Inl e, s1)
      | (Inr yamlConfig, s1) \<Rightarrow>
          (case getText document of
             Inl e \<Rightarrow> (Inl e, s1)
           | Inr content \<Rightarrow>
               let s2 = s1\<lparr> engineCalls :=
                             engineCalls s1 @ [(content, yamlConfig, fsPath document)] \<rparr>
               in case runAll env content yamlConfig (fsPath document) of
                    Inl e \<Rightarrow> (Inl e, s2)
                  | Inr problems \<Rightarrow>
                      (case mapProblems problems document of
                         Inl e \<Rightarrow> (Inl e, s2)
                       | Inr diagnostics \<Rightarrow> (Inr diagnostics, s2))))"

text \<open>
  \<^verbatim>\<open>lint\<close>; the call is recorded in the trace of calls.
\<close>

definition lint :: "Env \<Rightarrow> TextDocument \<Rightarrow> Provider \<Rightarrow> Provider" where
  "lint env document s =
     (let s' = (if \<not> getEnable env then clear document s
                else case tryLint env document s of
                       (Inr diagnostics, s1) \<Rightarrow>
                         s1\<lparr> diagnosticCollection :=
                               (diagnosticCollection s1)(uri document \<mapsto> diagnostics) \<rparr>
                     | (Inl error, s1) \<Rightarrow>
                         s1\<lparr> diagnosticCollection :=
                               (diagnosticCollection s1)
                                 (uri document \<mapsto> [errorDiagnostic error]) \<rparr>)
      in s'\<lparr> lintCalls := lintCalls s @ [document] \<rparr>)"

definition lintWithDebounce :: "TextDocument \<Rightarrow> Provider \<Rightarrow> Provider" where
  "lintWithDebounce document s =
     (let s1 = (case debounceTimers s (uri document) of
                  Some existingTimer \<Rightarrow> clearTimeout existingTimer s
                | None \<Rightarrow> s);
          (timer, s2) = setTimeout document (debounceTime s1) s1
      in s2\<lparr> debounceTimers := (debounceTimers s2)(uri document \<mapsto> timer) \<rparr>)"


subsection \<open>The event loop of the host\<close>







text \<open>The timers in the host's table whose callback is for a given document URI.\<close>

definition pendingFor :: "string \<Rightarrow> Provider \<Rightarrow> Timeout list" where
  "pendingFor u s = filter (\<lambda>tm. uri (target tm) = u) (timeouts s)"



text \<open>
  The timer table and the provider's map agree: every timer of the table is the one
  recorded for its document, handles are not reused.
\<close>

definition timersConsistent :: "Provider \<Rightarrow> bool" where
  "timersConsistent s \<longleftrightarrow>
     (\<forall>tm \<in> set (timeouts s). debounceTimers s (uri (target tm)) = Some (handle tm))
     \<and> distinct (map handle (timeouts s))
     \<and> (\<forall>tm \<in> set (timeouts s). handle tm < nextHandle s)"

section \<open>An example environment\<close>

text \<open>
  A document \<^verbatim>\<open>/w/a.yaml\<close> with the single line \<^verbatim>\<open>a: 1\<close> in the workspace folder
  \<^verbatim>\<open>/w\<close>. The user-specified configuration \<^verbatim>\<open>custom.yaml\<close> exists but does not
  parse, \<^verbatim>\<open>.yamllint\<close> does not exist, \<^verbatim>\<open>.yamllint.yaml\<close> and \<^verbatim>\<open>.yamllint.json\<close>
  exist and parse. The engine reports one problem.
\<close>

definition exampleDocument :: TextDocument where
  "exampleDocument =
     \<lparr> uri = ''file:///w/a.yaml'', fsPath = ''/w/a.yaml'',
       getText = Inr [0x61, 0x3A, 0x20, 0x31],
       docLines = [[0x61, 0x3A, 0x20, 0x31]] \<rparr>"

definition exampleProblem :: LintProblem where
  "exampleProblem =
     \<lparr> line = 1, column = 4, message = ''truthy value should be one of [false, true]'',
       level = ''warning'', rule = Some ''truthy'' \<rparr>"

definition exampleEnv :: Env where
  "exampleEnv =
     \<lparr> settings = \<lparr> enableSetting = None, configSetting = Some ''custom.yaml'',
                    debounceTimeSetting = None \<rparr>,
       workspaceFolder = (\<lambda>u. Some ''/w''),
       pathResolve = (\<lambda>w p. w @ ''/'' @ p),
       pathJoin = (\<lambda>w p. w @ ''/'' @ p),
       existsSync = (\<lambda>p. p = ''/w/custom.yaml'' \<or> p = ''/w/.yamllint.yaml''
                          \<or> p = ''/w/.yamllint.json''),
       parseFile = (\<lambda>p. if p = ''/w/.yamllint.yaml'' then Inr ''rules of .yamllint.yaml''
                         else if p = ''/w/.yamllint.json'' then Inr ''rules of .yamllint.json''
                         else if p = ''/w/custom.yaml'' then Inl (ErrorObject ''invalid config'')
                         else Inl (ErrorObject ''ENOENT'')),
       parseText = (\<lambda>t. Inr ''default rules''),
       runAll = (\<lambda>content config path. Inr [exampleProblem]) \<rparr>"

text \<open>
  A window without a workspace folder in which the user-specified path is the string
  \<^verbatim>\<open>__default__\<close> and no file can be loaded, and the same with a file that loads.
\<close>

definition sentinelEnv :: Env where
  "sentinelEnv =
     exampleEnv \<lparr> settings := \<lparr> enableSetting = None, configSetting = Some ''__default__'',
                                 debounceTimeSetting = None \<rparr>,
                  workspaceFolder := (\<lambda>u. None),
                  existsSync := (\<lambda>p. False),
                  parseFile := (\<lambda>p. Inl (ErrorObject ''ENOENT'')) \<rparr>"

definition sentinelEnvLater :: Env where
  "sentinelEnvLater =
     sentinelEnv \<lparr> existsSync := (\<lambda>p. True),
                   parseFile := (\<lambda>p. Inr ''rules of the user file'') \<rparr>"




text \<open>
  Variants of the example: the engine throws; linting is disabled; the engine reports
  two problems.
\<close>

definition failingEnv :: Env where
  "failingEnv = exampleEnv \<lparr> runAll := (\<lambda>content config path. Inl (ErrorObject ''engine failure'')) \<rparr>"

definition disabledEnv :: Env where
  "disabledEnv =
     exampleEnv \<lparr> settings := \<lparr> enableSetting = Some False, configSetting = None,
                                 debounceTimeSetting = None \<rparr> \<rparr>"

definition twoProblemsEnv :: Env where
  "twoProblemsEnv =
     exampleEnv \<lparr> runAll := (\<lambda>content config path.
        Inr [\<lparr> line = 1, column = 1, message = ''missing document start'',
               level = ''warning'', rule = Some ''document-start'' \<rparr>,
             exampleProblem]) \<rparr>"

section \<open>Properties of the mapping from problems to diagnostics\<close>

lemma extendToWordEnd_ge: "column0 \<le> extendToWordEnd lineText column0"
proof (induction lineText column0 rule: extendToWordEnd.induct)
  case (1 lineText endColumn)
  show ?case
  proof (cases "endColumn < length lineText \<and> \<not> isWhitespace (lineText ! endColumn)")
    case True
    with 1 have "endColumn + 1 \<le> extendToWordEnd lineText (endColumn + 1)" by simp
    with True show ?thesis by (subst extendToWordEnd.simps) simp
  next
    case False
    then show ?thesis by (subst extendToWordEnd.simps) auto
  qed
qed

lemma extendToWordEnd_le:
  "column0 \<le> length lineText \<Longrightarrow> extendToWordEnd lineText column0 \<le> length lineText"
proof (induction lineText column0 rule: extendToWordEnd.induct)
  case (1 lineText endColumn)
  show ?case
  proof (cases "endColumn < length lineText \<and> \<not> isWhitespace (lineText ! endColumn)")
    case True
    with 1 have "extendToWordEnd lineText (endColumn + 1) \<le> length lineText" by simp
    with True show ?thesis by (subst extendToWordEnd.simps) simp
  next
    case False
    with 1 show ?thesis by (subst extendToWordEnd.simps) auto
  qed
qed

lemma extendToWordEnd_stop:
  "\<not> (column0 < length lineText \<and> \<not> isWhitespace (lineText ! column0))
   \<Longrightarrow> extendToWordEnd lineText column0 = column0"
  by (subst extendToWordEnd.simps) auto

lemma extendToWordEnd_step:
  "column0 < length lineText \<Longrightarrow> \<not> isWhitespace (lineText ! column0)
   \<Longrightarrow> extendToWordEnd lineText column0 = extendToWordEnd lineText (column0 + 1)"
  by (subst extendToWordEnd.simps) auto

lemma wordEndColumn_inside:
  assumes "column0 < length lineText"
  shows "column0 + 1 \<le> wordEndColumn lineText column0"
    and "wordEndColumn lineText column0 \<le> length lineText"
    and "isWhitespace (lineText ! column0) \<Longrightarrow> wordEndColumn lineText column0 = column0 + 1"
proof -
  have ge: "column0 \<le> extendToWordEnd lineText column0" by (rule extendToWordEnd_ge)
  have le: "extendToWordEnd lineText column0 \<le> length lineText"
    using assms by (simp add: extendToWordEnd_le)
  show "column0 + 1 \<le> wordEndColumn lineText column0"
    using ge assms by (auto simp: wordEndColumn_def Let_def)
  show "wordEndColumn lineText column0 \<le> length lineText"
    using le by (auto simp: wordEndColumn_def Let_def)
  show "wordEndColumn lineText column0 = column0 + 1" if "isWhitespace (lineText ! column0)"
    using that assms by (simp add: wordEndColumn_def extendToWordEnd_stop)
qed

lemma wordEndColumn_outside:
  "length lineText \<le> column0 \<Longrightarrow> wordEndColumn lineText column0 = length lineText"
  by (simp add: wordEndColumn_def extendToWordEnd_stop)

lemma wordEndColumn_at_end:
  "wordEndColumn lineText (length lineText) = length lineText"
  by (simp add: wordEndColumn_outside)

lemma lineAt_scanned:
  assumes "0 < lineCount document"
  shows "lineAt document (min (int (nat (max 0 (line problem - 1)))) (int (lineCount document) - 1))
         = Inr (docLines document ! scannedLine problem document)"
proof -
  let ?n = "min (int (nat (max 0 (line problem - 1)))) (int (lineCount document) - 1)"
  have "0 \<le> ?n" "?n < int (lineCount document)" using assms by auto
  moreover have "nat ?n = scannedLine problem document"
    using assms by (auto simp: scannedLine_def min_def)
  ultimately show ?thesis by (simp add: lineAt_def)
qed

text \<open>
  On a document with at least one line the lookup of the line succeeds, so the mapping
  fails exactly when the constructor of the diagnostic rejects the message.
\<close>

lemma problemToDiagnostic_value:
  assumes "0 < lineCount document" and "message problem \<noteq> []"
  shows "problemToDiagnostic problem document =
     Inr \<lparr> drange = newRange (nat (max 0 (line problem - 1)))
                      (nat (max 0 (column problem - 1)))
                      (nat (max 0 (line problem - 1)))
                      (wordEndColumn (docLines document ! scannedLine problem document)
                         (nat (max 0 (column problem - 1)))),
            dmessage = message problem,
            severity = (if level problem = ''error'' then Error else Warning),
            source = Some ''yamllint'',
            code = (case rule problem of None \<Rightarrow> None
                    | Some r \<Rightarrow> if r = [] then None else Some r) \<rparr>"
  unfolding problemToDiagnostic_def Let_def lineAt_scanned [OF assms(1)]
  using assms(2) by (simp add: newDiagnostic_def)

lemma problemToDiagnostic_empty_message:
  assumes "0 < lineCount document" and "message problem = []"
  shows "problemToDiagnostic problem document = Inl (ErrorObject ''message must be set'')"
  unfolding problemToDiagnostic_def Let_def lineAt_scanned [OF assms(1)]
  using assms(2) by (simp add: newDiagnostic_def)

lemma newRange_same_line:
  "startLine (newRange l c l e) = l" "endLine (newRange l c l e) = l"
  "startCharacter (newRange l c l e) = min c e" "endCharacter (newRange l c l e) = max c e"
  by (simp_all add: newRange_def)

text \<open>
  The mapping of a problem whose column is inside the scanned line or at its end: the
  range is built in the order in which the code names its coordinates.
\<close>

lemma problemToDiagnostic_in_line:
  assumes "0 < lineCount document" and "message problem \<noteq> []"
    and "nat (max 0 (column problem - 1))
         \<le> length (docLines document ! scannedLine problem document)"
  shows "problemToDiagnostic problem document =
     Inr \<lparr> drange = \<lparr> startLine = nat (max 0 (line problem - 1)),
                      startCharacter = nat (max 0 (column problem - 1)),
                      endLine = nat (max 0 (line problem - 1)),
                      endCharacter = wordEndColumn (docLines document ! scannedLine problem document)
                                       (nat (max 0 (column problem - 1))) \<rparr>,
            dmessage = message problem,
            severity = (if level problem = ''error'' then Error else Warning),
            source = Some ''yamllint'',
            code = (case rule problem of None \<Rightarrow> None
                    | Some r \<Rightarrow> if r = [] then None else Some r) \<rparr>"
proof -
  let ?t = "docLines document ! scannedLine problem document"
  let ?c = "nat (max 0 (column problem - 1))"
  have "?c \<le> wordEndColumn ?t ?c"
  proof (cases "?c < length ?t")
    case True
    from wordEndColumn_inside(1) [OF this] show ?thesis by simp
  next
    case False
    with assms(3) have "?c = length ?t" by simp
    then show ?thesis using wordEndColumn_at_end [of ?t] by simp
  qed
  then show ?thesis
    by (simp add: problemToDiagnostic_value [OF assms(1,2)] newRange_def)
qed




text \<open>
  C8 (the code at a failing input). For the problem at line 1, column 10 of a document
  whose only line is \<^verbatim>\<open>a: 1\<close>, the claim gives a range that starts at (0, 9). The code
  clamps the end column to the length of the line, 4, which is before the start column
  9, and the range it produces starts at (0, 4) and ends at (0, 9).
\<close>

theorem problemToDiagnostic_start_past_end:
  "problemToDiagnostic
     \<lparr> line = 1, column = 10, message = ''trailing spaces'',
       level = ''error'', rule = Some ''trailing-spaces'' \<rparr>
     \<lparr> uri = ''file:///a.yaml'', fsPath = ''/a.yaml'', getText = Inr [0x61, 0x3A, 0x20, 0x31],
       docLines = [[0x61, 0x3A, 0x20, 0x31]] \<rparr>
   = Inr \<lparr> drange = \<lparr> startLine = 0, startCharacter = 4, endLine = 0, endCharacter = 9 \<rparr>,
           dmessage = ''trailing spaces'',
           severity = Error, source = Some ''yamllint'',
           code = Some ''trailing-spaces'' \<rparr>"
  by (simp add: problemToDiagnostic_def lineAt_def lineCount_def wordEndColumn_def
        extendToWordEnd_stop newRange_def newDiagnostic_def)

text \<open>
  Where the column is inside the scanned line or at its end, the start, the severity and
  the code are as the code names them.
\<close>

lemma problemToDiagnostic_start_in_line:
  assumes "0 < lineCount document" and "message problem \<noteq> []"
    and "nat (max 0 (column problem - 1))
         \<le> length (docLines document ! scannedLine problem document)"
  shows "\<exists>d. problemToDiagnostic problem document = Inr d
           \<and> int (startLine (drange d)) = max 0 (line problem - 1)
           \<and> int (startCharacter (drange d)) = max 0 (column problem - 1)
           \<and> (severity d = Error \<longleftrightarrow> level problem = ''error'')
           \<and> (level problem \<noteq> ''error'' \<longrightarrow> severity d = Warning)
           \<and> (\<forall>r. code d = Some r \<longrightarrow> rule problem = Some r)
           \<and> (\<forall>r. rule problem = Some r \<and> r \<noteq> [] \<longrightarrow> code d = Some r)
           \<and> dmessage d = message problem"
  by (auto simp: problemToDiagnostic_in_line [OF assms] split: option.splits if_splits)

text \<open>
  C10 (as amended). For a document with at least one line, the line whose text is scanned
  is the one at index \<open>min (L - 1) (lineCount - 1)\<close>, which is inside the document, so
  the lookup succeeds, and the mapping of a problem with a message returns a diagnostic.
  Its range is on the unclamped line \<open>L - 1\<close>, and its two columns are the problem's
  column and the end column computed from the text of the scanned line. For a problem
  reported past the last line, the range therefore lies on a line beyond the last one,
  while the scanned text is that of the last line.
\<close>

theorem problemToDiagnostic_line_clamped:
  assumes "0 < lineCount document"
  shows "scannedLine problem document < lineCount document
         \<and> int (scannedLine problem document)
             = min (max 0 (line problem - 1)) (int (lineCount document) - 1)
         \<and> lineAt document (min (int (nat (max 0 (line problem - 1)))) (int (lineCount document) - 1))
             = Inr (docLines document ! scannedLine problem document)
         \<and> (message problem \<noteq> [] \<longrightarrow>
             (\<exists>d. problemToDiagnostic problem document = Inr d
                \<and> startLine (drange d) = nat (max 0 (line problem - 1))
                \<and> endLine (drange d) = nat (max 0 (line problem - 1))
                \<and> {startCharacter (drange d), endCharacter (drange d)}
                    = {nat (max 0 (column problem - 1)),
                       wordEndColumn (docLines document ! scannedLine problem document)
                         (nat (max 0 (column problem - 1)))}
                \<and> (int (lineCount document) < line problem \<longrightarrow>
                     lineCount document \<le> startLine (drange d)
                     \<and> docLines document ! scannedLine problem document
                         = last (docLines document))))"
proof -
  have a: "scannedLine problem document < lineCount document"
    using assms by (auto simp: scannedLine_def)
  have b: "int (scannedLine problem document)
             = min (max 0 (line problem - 1)) (int (lineCount document) - 1)"
    using assms by (auto simp: scannedLine_def min_def)
  have c: "docLines document ! scannedLine problem document = last (docLines document)"
    if "int (lineCount document) < line problem"
  proof -
    have "scannedLine problem document = length (docLines document) - 1"
      using that assms by (auto simp: scannedLine_def lineCount_def min_def)
    moreover have "docLines document \<noteq> []" using assms by (auto simp: lineCount_def)
    ultimately show ?thesis by (simp add: last_conv_nth)
  qed
  have m: "{min x y, max x y} = {x, y}" for x y :: nat
    by (auto simp: min_def max_def)
  have d: "\<exists>d. problemToDiagnostic problem document = Inr d
                \<and> startLine (drange d) = nat (max 0 (line problem - 1))
                \<and> endLine (drange d) = nat (max 0 (line problem - 1))
                \<and> {startCharacter (drange d), endCharacter (drange d)}
                    = {nat (max 0 (column problem - 1)),
                       wordEndColumn (docLines document ! scannedLine problem document)
                         (nat (max 0 (column problem - 1)))}
                \<and> (int (lineCount document) < line problem \<longrightarrow>
                     lineCount document \<le> startLine (drange d)
                     \<and> docLines document ! scannedLine problem document
                         = last (docLines document))"
    if "message problem \<noteq> []"
  proof -
    have beyond: "lineCount document \<le> nat (max 0 (line problem - 1))"
      if "int (lineCount document) < line problem"
      using that by auto
    show ?thesis
      using c beyond
      by (simp add: problemToDiagnostic_value [OF assms that] newRange_same_line m)
  qed
  show ?thesis
    using a b d lineAt_scanned [OF assms, of problem] by blast
qed

theorem problemToDiagnostic_line_clamped_witness:
  "0 < lineCount \<lparr> uri = ''file:///a.yaml'', fsPath = ''/a.yaml'', getText = Inr [0x61, 0x0A, 0x62, 0x63],
                    docLines = [[0x61], [0x62, 0x63]] \<rparr>
   \<and> (\<exists>d. problemToDiagnostic
          \<lparr> line = 7, column = 1, message = ''m'', level = ''error'', rule = None \<rparr>
          \<lparr> uri = ''file:///a.yaml'', fsPath = ''/a.yaml'', getText = Inr [0x61, 0x0A, 0x62, 0x63],
            docLines = [[0x61], [0x62, 0x63]] \<rparr> = Inr d
        \<and> startLine (drange d) = 6 \<and> endLine (drange d) = 6
        \<and> {startCharacter (drange d), endCharacter (drange d)} = {0, 2})"
proof -
  let ?doc = "\<lparr> uri = ''file:///a.yaml'', fsPath = ''/a.yaml'',
               getText = Inr [0x61, 0x0A, 0x62, 0x63 :: 16 word],
               docLines = [[0x61], [0x62, 0x63 :: 16 word]] \<rparr>"
  let ?p = "\<lparr> line = 7, column = 1, message = ''m'', level = ''error'', rule = None \<rparr>"
  have w: "wordEndColumn [0x62, 0x63] 0 = 2"
    by code_simp
  have l: "0 < lineCount ?doc" by (simp add: lineCount_def)
  have n: "message ?p \<noteq> []" by simp
  have sl: "docLines ?doc ! scannedLine ?p ?doc = [0x62, 0x63]"
    by (simp add: scannedLine_def lineCount_def)
  from problemToDiagnostic_line_clamped [OF l, of ?p] n
  obtain d where d: "problemToDiagnostic ?p ?doc = Inr d"
    "startLine (drange d) = nat (max 0 (line ?p - 1))"
    "endLine (drange d) = nat (max 0 (line ?p - 1))"
    "{startCharacter (drange d), endCharacter (drange d)}
       = {nat (max 0 (column ?p - 1)),
          wordEndColumn (docLines ?doc ! scannedLine ?p ?doc) (nat (max 0 (column ?p - 1)))}"
    by blast
  from d(4) have "{startCharacter (drange d), endCharacter (drange d)} = {0, 2}"
    by (simp only: sl) (simp add: w)
  with d(1,2,3) l show ?thesis by auto
qed

text \<open>
  C10 (counterexample to the claim as stated). The mapping of a problem whose message is
  the empty string fails: the constructor of the diagnostic throws.
\<close>

theorem problemToDiagnostic_empty_message_fails:
  "problemToDiagnostic
     \<lparr> line = 1, column = 1, message = [], level = ''error'', rule = None \<rparr>
     \<lparr> uri = ''file:///a.yaml'', fsPath = ''/a.yaml'', getText = Inr [0x61, 0x3A, 0x20, 0x31],
       docLines = [[0x61, 0x3A, 0x20, 0x31]] \<rparr>
   = Inl (ErrorObject ''message must be set'')"
  by (simp add: problemToDiagnostic_def lineAt_def lineCount_def newDiagnostic_def)

section \<open>Properties of the configuration resolution\<close>

lemma fromFile_Inr:
  "parseFile env path = Inr r \<Longrightarrow>
   fromFile env path s = (Inr (newObject r s), s\<lparr> nextObject := nextObject s + 1 \<rparr>)"
  by (simp add: fromFile_def)

lemma fromFile_Inl:
  "isl (parseFile env path) \<Longrightarrow> fromFile env path s = (Inl (projl (parseFile env path)), s)"
  by (cases "parseFile env path") (simp_all add: fromFile_def)


lemma loadUserConfig_eq:
  "loadUserConfig env workspacePath s =
     (if getConfig env = [] then (None, s)
      else case cachedConfig s (resolvedPathOf env workspacePath) of
             Some cached \<Rightarrow> (Some cached, s)
           | None \<Rightarrow>
               (case parseFile env (resolvedPathOf env workspacePath) of
                  Inl e \<Rightarrow> (None, s)
                | Inr r \<Rightarrow> (Some (newObject r s),
                            cacheNew (resolvedPathOf env workspacePath) r s)))"
  by (simp add: loadUserConfig_def fromFile_def cacheNew_def Let_def
        split: option.splits sum.splits)

lemma searchWorkspace_Cons:
  "searchWorkspace env w (configName # names) s =
     (case cachedConfig s (pathJoin env w configName) of
        Some cached \<Rightarrow> (Some cached, s)
      | None \<Rightarrow>
          if existsSync env (pathJoin env w configName)
          then (case parseFile env (pathJoin env w configName) of
                  Inl e \<Rightarrow> searchWorkspace env w names s
                | Inr r \<Rightarrow> (Some (newObject r s), cacheNew (pathJoin env w configName) r s))
          else searchWorkspace env w names s)"
  by (simp add: fromFile_def cacheNew_def Let_def split: option.splits sum.splits)

lemma loadDefaultConfig_eq:
  "loadDefaultConfig env s =
     (case cachedConfig s defaultKey of
        Some cached \<Rightarrow> (Inr cached, s)
      | None \<Rightarrow>
          (case parseText env DEFAULT_CONFIG of
             Inl e \<Rightarrow> (Inl e, s)
           | Inr d \<Rightarrow> (Inr (newObject d s), cacheNew defaultKey d s)))"
  by (simp add: loadDefaultConfig_def newYamlLintConfig_def cacheNew_def
        split: option.splits sum.splits)

declare searchWorkspace.simps(2) [simp del]


lemma searchWorkspace_None:
  "searchWorkspace env w names s = (None, s')
   \<Longrightarrow> s' = s \<and> (\<forall>n \<in> set names. candidateFails env s (pathJoin env w n))"
  by (induction names)
     (auto simp: searchWorkspace_Cons candidateFails_def split: option.splits if_splits sum.splits)


text \<open>What a successful search returns and how it leaves the state.\<close>

lemma searchWorkspace_Some:
  "searchWorkspace env w names s = (Some c, s')
   \<Longrightarrow> (s' = s \<and> (\<exists>n \<in> set names. cachedConfig s (pathJoin env w n) = Some c))
       \<or> (\<exists>n \<in> set names. \<exists>r. parseFile env (pathJoin env w n) = Inr r
             \<and> c = newObject r s \<and> s' = cacheNew (pathJoin env w n) r s)"
  by (induction names)
     (auto simp: searchWorkspace_Cons split: option.splits if_splits sum.splits)


lemma loadUserConfig_None:
  "loadUserConfig env (workspacePathOf env document) s = (None, s')
   \<longleftrightarrow> s' = s \<and> userConfigFails env document s"
  by (auto simp: loadUserConfig_eq userConfigFails_def split: option.splits sum.splits)

lemma getYamlLintConfig_user_cached:
  assumes "getConfig env \<noteq> []"
    and "cachedConfig s (resolvedPathOf env (workspacePathOf env document)) = Some c"
  shows "getYamlLintConfig env document s = (Inr c, s)"
  using assms by (simp add: getYamlLintConfig_def loadUserConfig_eq)

lemma getYamlLintConfig_user_loaded:
  assumes "getConfig env \<noteq> []"
    and "cachedConfig s (resolvedPathOf env (workspacePathOf env document)) = None"
    and "parseFile env (resolvedPathOf env (workspacePathOf env document)) = Inr r"
  shows "getYamlLintConfig env document s
         = (Inr (newObject r s), cacheNew (resolvedPathOf env (workspacePathOf env document)) r s)"
  using assms by (simp add: getYamlLintConfig_def loadUserConfig_eq)

lemma getYamlLintConfig_after_user:
  assumes "userConfigFails env document s"
  shows "getYamlLintConfig env document s =
           (case (case workspacePathOf env document of
                    Some w \<Rightarrow> searchWorkspace env w CONFIG_FILE_NAMES s
                  | None \<Rightarrow> (None, s)) of
              (Some config, s2) \<Rightarrow> (Inr config, s2)
            | (None, s2) \<Rightarrow> loadDefaultConfig env s2)"
proof -
  have "loadUserConfig env (workspacePathOf env document) s = (None, s)"
    using assms by (simp add: loadUserConfig_None)
  then show ?thesis by (simp add: getYamlLintConfig_def)
qed



text \<open>
  The three ways a resolution ends: the state is unchanged (and a returned configuration
  was in the cache), or a file was loaded and stored under its path, or the default was
  built and stored under the sentinel key.
\<close>

lemma getYamlLintConfig_shape:
  "(\<exists>x. getYamlLintConfig env document s = (x, s)
        \<and> (case x of Inr c \<Rightarrow> \<exists>k. cachedConfig s k = Some c
                     | Inl e \<Rightarrow> parseText env DEFAULT_CONFIG = Inl e))
   \<or> (\<exists>k r. parseFile env k = Inr r
        \<and> getYamlLintConfig env document s = (Inr (newObject r s), cacheNew k r s))
   \<or> (\<exists>d. parseText env DEFAULT_CONFIG = Inr d
        \<and> getYamlLintConfig env document s = (Inr (newObject d s), cacheNew defaultKey d s))"
proof (cases "userConfigFails env document s")
  case False
  let ?k = "resolvedPathOf env (workspacePathOf env document)"
  from False have ne: "getConfig env \<noteq> []" by (simp add: userConfigFails_def)
  show ?thesis
  proof (cases "cachedConfig s ?k")
    case (Some c)
    from getYamlLintConfig_user_cached [OF ne Some] Some show ?thesis
      by (intro disjI1 exI [of _ "Inr c"]) auto
  next
    case None
    with False obtain r where r: "parseFile env ?k = Inr r"
      by (cases "parseFile env ?k") (auto simp: userConfigFails_def)
    from getYamlLintConfig_user_loaded [OF ne None r] show ?thesis using r by blast
  qed
next
  case uf: True
  let ?search = "case workspacePathOf env document of
                   Some w \<Rightarrow> searchWorkspace env w CONFIG_FILE_NAMES s
                 | None \<Rightarrow> (None, s)"
  obtain res s2 where sr: "?search = (res, s2)" by (cases ?search)
  show ?thesis
  proof (cases res)
    case None
    have s2: "s2 = s"
      using sr None by (auto split: option.splits dest: searchWorkspace_None)
    have "getYamlLintConfig env document s = loadDefaultConfig env s"
      using sr None s2 by (simp add: getYamlLintConfig_after_user [OF uf])
    then show ?thesis
      by (auto simp: loadDefaultConfig_eq split: option.splits sum.splits)
  next
    case (Some c)
    then obtain w where w: "workspacePathOf env document = Some w"
      "searchWorkspace env w CONFIG_FILE_NAMES s = (Some c, s2)"
      using sr by (auto split: option.splits)
    have g: "getYamlLintConfig env document s = (Inr c, s2)"
      using w by (simp add: getYamlLintConfig_after_user [OF uf])
    from searchWorkspace_Some [OF w(2)] show ?thesis
      using g by auto
  qed
qed









lemma getYamlLintConfig_total:
  assumes "parseText env DEFAULT_CONFIG = Inr d"
  shows "\<exists>c' s'. getYamlLintConfig env document s = (Inr c', s')"
proof -
  from getYamlLintConfig_shape [of env document s]
  consider x where "getYamlLintConfig env document s = (x, s)"
      "case x of Inr c \<Rightarrow> \<exists>k. cachedConfig s k = Some c
               | Inl e \<Rightarrow> parseText env DEFAULT_CONFIG = Inl e"
    | c' s' where "getYamlLintConfig env document s = (Inr c', s')"
    by blast
  then show ?thesis
  proof cases
    case 1
    then show ?thesis using assms by (cases x) auto
  next
    case 2
    then show ?thesis by blast
  qed
qed

lemmas resolution_eval =
  getYamlLintConfig_def workspacePathOf_def resolvedPathOf_def loadUserConfig_eq
  searchWorkspace_Cons loadDefaultConfig_eq CONFIG_FILE_NAMES_def defaultKey_def
  getConfig_def cachedConfig_def cacheNew_def newObject_def newProvider_def
  updateConfiguration_def userConfigFails_def candidateFails_def searchFails_def
  exampleEnv_def exampleDocument_def sentinelEnv_def sentinelEnvLater_def



text \<open>
  The resolution never writes a null entry into the cache, and when loading a key other
  than the sentinel \<^verbatim>\<open>__default__\<close> fails, the cache is left unchanged for that key. So
  when the user-specified path (not the sentinel) was neither cached nor loadable, a
  later resolution with the same settings, in which the file loads, loads it.
\<close>

lemma failed_load_not_cached:
  assumes "s1 = snd (getYamlLintConfig env document s)"
    and "k0 = resolvedPathOf env (workspacePathOf env document)"
  shows "(isl (parseFile env key) \<and> key \<noteq> defaultKey \<longrightarrow> configCache s1 key = configCache s key)
       \<and> (\<forall>k. configCache s1 k = Some None \<longrightarrow> configCache s k = Some None)
       \<and> (getConfig env \<noteq> [] \<and> k0 \<noteq> defaultKey \<and> cachedConfig s k0 = None
            \<and> isl (parseFile env k0)
            \<and> settings env' = settings env \<and> workspaceFolder env' = workspaceFolder env
            \<and> pathResolve env' = pathResolve env \<and> parseFile env' k0 = Inr r \<longrightarrow>
          getYamlLintConfig env' document s1 = (Inr (newObject r s1), cacheNew k0 r s1))"
proof -
  have unchanged: "configCache s1 key = configCache s key"
    if "isl (parseFile env key)" "key \<noteq> defaultKey" for key
    using getYamlLintConfig_shape [of env document s] that
    by (auto simp: assms(1) cacheNew_def)
  have nonull: "configCache s k = Some None" if "configCache s1 k = Some None" for k
    using getYamlLintConfig_shape [of env document s] that
    by (auto simp: assms(1) cacheNew_def split: if_splits)
  have retry: "getYamlLintConfig env' document s1 = (Inr (newObject r s1), cacheNew k0 r s1)"
    if "getConfig env \<noteq> []" "k0 \<noteq> defaultKey" "cachedConfig s k0 = None"
      "isl (parseFile env k0)" "settings env' = settings env"
      "workspaceFolder env' = workspaceFolder env" "pathResolve env' = pathResolve env"
      "parseFile env' k0 = Inr r"
  proof -
    have g': "getConfig env' = getConfig env"
      using that(5) by (simp add: getConfig_def)
    have w': "workspacePathOf env' document = workspacePathOf env document"
      using that(6) by (simp add: workspacePathOf_def)
    have k: "resolvedPathOf env' (workspacePathOf env' document) = k0"
      by (simp add: assms(2) resolvedPathOf_def w' g' that(7) cong: option.case_cong)
    have g: "getConfig env' \<noteq> []"
      using that(1) by (simp add: g')
    have "cachedConfig s1 k0 = None"
      using unchanged [OF that(4,2)] that(3) by (simp add: cachedConfig_def)
    with getYamlLintConfig_user_loaded [of env' s1 document r] k g that(8)
    show ?thesis by simp
  qed
  show ?thesis using unchanged nonull retry by blast
qed

text \<open>
  C9 (the code at a failing input). Without a workspace folder the user-specified path
  \<^verbatim>\<open>__default__\<close> is used as it is, as the key of the cache. Its load fails; the cache
  has no entry for the key before the resolution and holds the default under it
  afterwards. When the file can be loaded later, the next resolution does not load it: it
  finds that entry and returns the default.
\<close>

theorem failed_load_sentinel_key:
  "isl (parseFile sentinelEnv ''__default__'')
   \<and> resolvedPathOf sentinelEnv (workspacePathOf sentinelEnv exampleDocument) = ''__default__''
   \<and> configCache (newProvider sentinelEnv) ''__default__'' = None
   \<and> configCache (snd (getYamlLintConfig sentinelEnv exampleDocument (newProvider sentinelEnv)))
        ''__default__'' = Some (Some \<lparr> ident = 0, rules = ''default rules'' \<rparr>)
   \<and> parseFile sentinelEnvLater ''__default__'' = Inr ''rules of the user file''
   \<and> fst (getYamlLintConfig sentinelEnvLater exampleDocument
            (snd (getYamlLintConfig sentinelEnv exampleDocument (newProvider sentinelEnv))))
       = Inr \<lparr> ident = 0, rules = ''default rules'' \<rparr>"
  by (simp add: resolution_eval)

section \<open>Properties of \<^verbatim>\<open>lint\<close> and \<^verbatim>\<open>clear\<close>\<close>

text \<open>The diagnostic of the \<^verbatim>\<open>catch\<close> block, as the host's constructors build it.\<close>

lemma errorDiagnostic_constructed:
  "newDiagnostic (newRange 0 0 0 0)
     (''yamllint error: '' @ (case error of ErrorObject m \<Rightarrow> m | OtherValue v \<Rightarrow> v)) Error
   = Inr ((errorDiagnostic error) \<lparr> source := None \<rparr>)"
  by (simp add: newDiagnostic_def newRange_def errorDiagnostic_def)

lemma mapProblems_total:
  assumes "0 < lineCount document" and "\<forall>p \<in> set problems. message p \<noteq> []"
  shows "\<exists>ds. mapProblems problems document = Inr ds
           \<and> length ds = length problems
           \<and> (\<forall>i < length problems. problemToDiagnostic (problems ! i) document = Inr (ds ! i))"
  using assms(2)
proof (induction problems)
  case Nil
  show ?case by simp
next
  case (Cons p ps)
  from Cons obtain ds where ds: "mapProblems ps document = Inr ds" "length ds = length ps"
    "\<forall>i < length ps. problemToDiagnostic (ps ! i) document = Inr (ds ! i)" by auto
  have "message p \<noteq> []" using Cons.prems by simp
  then obtain d where d: "problemToDiagnostic p document = Inr d"
    using problemToDiagnostic_value [OF assms(1)] by blast
  have "\<forall>i < length (p # ps). problemToDiagnostic ((p # ps) ! i) document = Inr ((d # ds) ! i)"
    using d ds(3) by (auto simp: nth_Cons split: nat.splits)
  then show ?case using d ds(1,2) by simp
qed

text \<open>A problem without a message makes the whole mapping fail.\<close>

lemma mapProblems_empty_message:
  assumes "0 < lineCount document" and "p \<in> set problems" and "message p = []"
  shows "mapProblems problems document = Inl (ErrorObject ''message must be set'')"
  using assms(2)
proof (induction problems)
  case Nil
  then show ?case by simp
next
  case (Cons q qs)
  show ?case
  proof (cases "message q = []")
    case True
    then show ?thesis by (simp add: problemToDiagnostic_empty_message [OF assms(1)])
  next
    case False
    then have "p \<in> set qs" using Cons.prems assms(3) by auto
    from Cons.IH [OF this] show ?thesis
      by (simp add: problemToDiagnostic_value [OF assms(1) False])
  qed
qed

lemma lint_enabled_diagnostics:
  assumes "getEnable env"
  shows "diagnosticCollection (lint env document s) (uri document)
         = Some (case fst (tryLint env document s) of
                   Inr diagnostics \<Rightarrow> diagnostics
                 | Inl error \<Rightarrow> [errorDiagnostic error])"
  using assms by (auto simp: lint_def split: prod.splits sum.splits)

lemma clear_pendingFor:
  assumes "timersConsistent s"
  shows "pendingFor (uri document) (clear document s) = []"
proof -
  have "tm \<notin> set (timeouts (clear document s))" if "uri (target tm) = uri document" for tm
  proof (cases "debounceTimers s (uri document)")
    case None
    then show ?thesis using assms that
      by (auto simp: clear_def Let_def timersConsistent_def)
  next
    case (Some h)
    then show ?thesis using assms that
      by (auto simp: clear_def Let_def clearTimeout_def timersConsistent_def)
  qed
  then show ?thesis by (auto simp: pendingFor_def filter_empty_conv)
qed

text \<open>
  C4. \<^verbatim>\<open>lint\<close> is a total function on states: every step of its \<^verbatim>\<open>try\<close> block that
  can throw yields a value that the \<^verbatim>\<open>catch\<close> block receives. With linting enabled,
  when a step fails (the configuration resolution, reading the text, the engine, the
  mapping of a problem), the document's entry in the collection is exactly one
  diagnostic, of severity Error, with the range from (0, 0) to (0, 0), whose message is
  \<^verbatim>\<open>yamllint error: \<close> followed by the message of the thrown error (or the string
  rendering of any other thrown value).
\<close>

theorem lint_publishes_failure:
  assumes "getEnable env"
  shows "(\<forall>error s'. tryLint env document s = (Inl error, s') \<longrightarrow>
            diagnosticCollection (lint env document s) (uri document)
            = Some [\<lparr> drange = \<lparr> startLine = 0, startCharacter = 0,
                                  endLine = 0, endCharacter = 0 \<rparr>,
                      dmessage = ''yamllint error: '' @
                                 (case error of ErrorObject m \<Rightarrow> m | OtherValue v \<Rightarrow> v),
                      severity = Error, source = Some ''yamllint'', code = None \<rparr>])
       \<and> (\<forall>error s1. getYamlLintConfig env document s = (Inl error, s1) \<longrightarrow>
            fst (tryLint env document s) = Inl error)
       \<and> (\<forall>yamlConfig s1 error.
            getYamlLintConfig env document s = (Inr yamlConfig, s1)
            \<and> getText document = Inl error \<longrightarrow>
            fst (tryLint env document s) = Inl error)
       \<and> (\<forall>yamlConfig s1 content error.
            getYamlLintConfig env document s = (Inr yamlConfig, s1)
            \<and> getText document = Inr content
            \<and> runAll env content yamlConfig (fsPath document) = Inl error \<longrightarrow>
            fst (tryLint env document s) = Inl error)
       \<and> (\<forall>yamlConfig s1 content problems error.
            getYamlLintConfig env document s = (Inr yamlConfig, s1)
            \<and> getText document = Inr content
            \<and> runAll env content yamlConfig (fsPath document) = Inr problems
            \<and> mapProblems problems document = Inl error \<longrightarrow>
            fst (tryLint env document s) = Inl error)"
proof -
  have "diagnosticCollection (lint env document s) (uri document)
        = Some [errorDiagnostic error]" if "tryLint env document s = (Inl error, s')" for error s'
    using that by (simp add: lint_enabled_diagnostics [OF assms])
  then show ?thesis
    by (auto simp: errorDiagnostic_def tryLint_def Let_def)
qed

theorem lint_publishes_failure_witness:
  "getEnable failingEnv
   \<and> runAll failingEnv [0x61, 0x3A, 0x20, 0x31]
        \<lparr> ident = 0, rules = ''rules of .yamllint.yaml'' \<rparr> ''/w/a.yaml''
       = Inl (ErrorObject ''engine failure'')
   \<and> diagnosticCollection (lint failingEnv exampleDocument (newProvider failingEnv))
        (uri exampleDocument)
       = Some [\<lparr> drange = \<lparr> startLine = 0, startCharacter = 0, endLine = 0, endCharacter = 0 \<rparr>,
                 dmessage = ''yamllint error: engine failure'',
                 severity = Error, source = Some ''yamllint'', code = None \<rparr>]"
proof -
  let ?s = "newProvider failingEnv"
  have en: "getEnable failingEnv"
    by (simp add: getEnable_def failingEnv_def exampleEnv_def)
  have cfg: "getYamlLintConfig failingEnv exampleDocument ?s
     = (Inr \<lparr> ident = 0, rules = ''rules of .yamllint.yaml'' \<rparr>,
        cacheNew ''/w/.yamllint.yaml'' ''rules of .yamllint.yaml'' ?s)"
    by (simp add: resolution_eval failingEnv_def)
  have gt: "getText exampleDocument = Inr [0x61, 0x3A, 0x20, 0x31]"
    "fsPath exampleDocument = ''/w/a.yaml''"
    by (simp_all add: exampleDocument_def)
  have eng: "runAll failingEnv [0x61, 0x3A, 0x20, 0x31]
        \<lparr> ident = 0, rules = ''rules of .yamllint.yaml'' \<rparr> ''/w/a.yaml''
       = Inl (ErrorObject ''engine failure'')"
    by (simp add: failingEnv_def)
  note t = lint_publishes_failure [OF en, of exampleDocument ?s]
  from t cfg gt eng
  have "fst (tryLint failingEnv exampleDocument ?s) = Inl (ErrorObject ''engine failure'')"
    by metis
  then have "tryLint failingEnv exampleDocument ?s
             = (Inl (ErrorObject ''engine failure''), snd (tryLint failingEnv exampleDocument ?s))"
    by (metis prod.collapse)
  with t have "diagnosticCollection (lint failingEnv exampleDocument ?s) (uri exampleDocument)
       = Some [\<lparr> drange = \<lparr> startLine = 0, startCharacter = 0, endLine = 0, endCharacter = 0 \<rparr>,
                 dmessage = ''yamllint error: '' @
                   (case ErrorObject ''engine failure'' of ErrorObject m \<Rightarrow> m | OtherValue v \<Rightarrow> v),
                 severity = Error, source = Some ''yamllint'', code = None \<rparr>]"
    by blast
  then show ?thesis using en eng by simp
qed

text \<open>
  C6. With the enable setting false, \<^verbatim>\<open>lint\<close> removes the document's entry from the
  collection and the document's timer from the provider's map and from the host's table
  (no timer for the document stays pending when the table and the map agree); the entries
  of other documents, the configuration cache, the allocation counter of configuration
  objects and the trace of engine calls are unchanged, so no configuration is resolved
  and the engine is not called.
\<close>

theorem lint_disabled_clears:
  assumes "\<not> getEnable env"
  shows "diagnosticCollection (lint env document s) (uri document) = None
       \<and> (\<forall>u. u \<noteq> uri document \<longrightarrow>
            diagnosticCollection (lint env document s) u = diagnosticCollection s u)
       \<and> debounceTimers (lint env document s) (uri document) = None
       \<and> (\<forall>timer. debounceTimers s (uri document) = Some timer \<longrightarrow>
            timer \<notin> handle ` set (timeouts (lint env document s)))
       \<and> (timersConsistent s \<longrightarrow> pendingFor (uri document) (lint env document s) = [])
       \<and> configCache (lint env document s) = configCache s
       \<and> nextObject (lint env document s) = nextObject s
       \<and> engineCalls (lint env document s) = engineCalls s"
proof -
  have l: "lint env document s = (clear document s)\<lparr> lintCalls := lintCalls s @ [document] \<rparr>"
    using assms by (simp add: lint_def)
  have p: "pendingFor (uri document) (lint env document s) = []" if "timersConsistent s"
    using clear_pendingFor [OF that, of document] by (simp add: l pendingFor_def)
  have c: "diagnosticCollection (clear document s) = (diagnosticCollection s)(uri document := None)"
    "debounceTimers (clear document s) (uri document) = None"
    "configCache (clear document s) = configCache s"
    "nextObject (clear document s) = nextObject s"
    "engineCalls (clear document s) = engineCalls s"
    by (auto simp: clear_def clearTimeout_def Let_def split: option.splits)
  have t: "timer \<notin> handle ` set (timeouts (clear document s))"
    if "debounceTimers s (uri document) = Some timer" for timer
    using that by (auto simp: clear_def clearTimeout_def Let_def)
  show ?thesis using p t by (simp add: l c)
qed

theorem lint_disabled_clears_witness:
  "\<not> getEnable disabledEnv
   \<and> timersConsistent (lintWithDebounce exampleDocument (lint failingEnv exampleDocument (newProvider failingEnv)))
   \<and> debounceTimers (lintWithDebounce exampleDocument (lint failingEnv exampleDocument (newProvider failingEnv)))
        (uri exampleDocument) = Some 0
   \<and> diagnosticCollection (lintWithDebounce exampleDocument (lint failingEnv exampleDocument (newProvider failingEnv)))
        (uri exampleDocument) \<noteq> None
   \<and> diagnosticCollection
        (lint disabledEnv exampleDocument
          (lintWithDebounce exampleDocument (lint failingEnv exampleDocument (newProvider failingEnv))))
        (uri exampleDocument) = None
   \<and> pendingFor (uri exampleDocument)
        (lint disabledEnv exampleDocument
          (lintWithDebounce exampleDocument (lint failingEnv exampleDocument (newProvider failingEnv))))
       = []
   \<and> 0 \<notin> handle ` set (timeouts
        (lint disabledEnv exampleDocument
          (lintWithDebounce exampleDocument (lint failingEnv exampleDocument (newProvider failingEnv)))))"
proof -
  let ?s1 = "lint failingEnv exampleDocument (newProvider failingEnv)"
  let ?s = "lintWithDebounce exampleDocument ?s1"
  have dis: "\<not> getEnable disabledEnv"
    by (simp add: getEnable_def disabledEnv_def exampleEnv_def)
  have en: "getEnable failingEnv"
    by (simp add: getEnable_def failingEnv_def exampleEnv_def)
  have s1: "timeouts ?s1 = []" "debounceTimers ?s1 = Map.empty" "nextHandle ?s1 = 0"
    "diagnosticCollection ?s1 (uri exampleDocument) \<noteq> None"
    using en
    by (auto simp: lint_def Let_def tryLint_def resolution_eval failingEnv_def
          split: prod.splits sum.splits)
  have tc: "timersConsistent ?s" and dt: "debounceTimers ?s (uri exampleDocument) = Some 0"
    and dc: "diagnosticCollection ?s (uri exampleDocument) \<noteq> None"
    using s1
    by (simp_all add: timersConsistent_def lintWithDebounce_def setTimeout_def Let_def)
  from lint_disabled_clears [OF dis, of exampleDocument ?s] tc dt
  have "diagnosticCollection (lint disabledEnv exampleDocument ?s) (uri exampleDocument) = None
        \<and> pendingFor (uri exampleDocument) (lint disabledEnv exampleDocument ?s) = []
        \<and> 0 \<notin> handle ` set (timeouts (lint disabledEnv exampleDocument ?s))"
    by blast
  then show ?thesis using dis tc dt dc by simp
qed

text \<open>
  C7. A successful pass: linting is enabled, the resolution, the reading of the text and
  the engine succeed, the document has at least one line and every problem has a
  message. Then the document's entry in the collection after \<^verbatim>\<open>lint\<close> is exactly the
  list of the diagnostics of the problems the engine returned in this pass, one per
  problem and in their order, whatever the entry held before (for instance the longer
  list of an earlier pass).
\<close>

theorem lint_replaces_diagnostics:
  assumes "getEnable env"
    and "getYamlLintConfig env document s = (Inr yamlConfig, s1)"
    and "getText document = Inr content"
    and "runAll env content yamlConfig (fsPath document) = Inr problems"
    and "0 < lineCount document"
    and "\<forall>p \<in> set problems. message p \<noteq> []"
  shows "\<exists>diagnostics.
           diagnosticCollection (lint env document s) (uri document) = Some diagnostics
           \<and> mapProblems problems document = Inr diagnostics
           \<and> length diagnostics = length problems
           \<and> (\<forall>i < length problems.
                problemToDiagnostic (problems ! i) document = Inr (diagnostics ! i))"
proof -
  obtain ds where ds: "mapProblems problems document = Inr ds" "length ds = length problems"
    "\<forall>i < length problems. problemToDiagnostic (problems ! i) document = Inr (ds ! i)"
    using mapProblems_total [OF assms(5,6)] by blast
  have "fst (tryLint env document s) = Inr ds"
    using assms(2,3,4) ds(1) by (simp add: tryLint_def Let_def)
  then have "diagnosticCollection (lint env document s) (uri document) = Some ds"
    by (simp add: lint_enabled_diagnostics [OF assms(1)])
  then show ?thesis using ds by blast
qed

lemma example_diagnostic:
  "problemToDiagnostic exampleProblem exampleDocument
   = Inr \<lparr> drange = \<lparr> startLine = 0, startCharacter = 3, endLine = 0, endCharacter = 4 \<rparr>,
           dmessage = ''truthy value should be one of [false, true]'',
           severity = Warning, source = Some ''yamllint'', code = Some ''truthy'' \<rparr>"
proof -
  have w: "wordEndColumn [0x61, 0x3A, 0x20, 0x31] 3 = 4" by code_simp
  have l: "0 < lineCount exampleDocument" by (simp add: lineCount_def exampleDocument_def)
  have n: "message exampleProblem \<noteq> []" by (simp add: exampleProblem_def)
  show ?thesis
    by (simp add: problemToDiagnostic_value [OF l n])
       (simp add: exampleProblem_def exampleDocument_def scannedLine_def lineCount_def w
          newRange_def)
qed

theorem lint_replaces_diagnostics_witness:
  "getEnable exampleEnv \<and> 0 < lineCount exampleDocument
   \<and> message exampleProblem \<noteq> []
   \<and> map_option length
        (diagnosticCollection (lint twoProblemsEnv exampleDocument (newProvider exampleEnv))
           (uri exampleDocument)) = Some 2
   \<and> diagnosticCollection
        (lint exampleEnv exampleDocument
           (lint twoProblemsEnv exampleDocument (newProvider exampleEnv)))
        (uri exampleDocument)
       = Some [\<lparr> drange = \<lparr> startLine = 0, startCharacter = 3, endLine = 0, endCharacter = 4 \<rparr>,
                 dmessage = ''truthy value should be one of [false, true]'',
                 severity = Warning, source = Some ''yamllint'', code = Some ''truthy'' \<rparr>]"
proof -
  let ?init = "newProvider exampleEnv"
  let ?s = "lint twoProblemsEnv exampleDocument ?init"
  have en: "getEnable exampleEnv" "getEnable twoProblemsEnv"
    by (simp_all add: getEnable_def twoProblemsEnv_def exampleEnv_def)
  have l: "0 < lineCount exampleDocument" by (simp add: lineCount_def exampleDocument_def)
  have gt: "getText exampleDocument = Inr [0x61, 0x3A, 0x20, 0x31]"
    by (simp add: exampleDocument_def)
  have p: "parseText exampleEnv DEFAULT_CONFIG = Inr ''default rules''"
    "parseText twoProblemsEnv DEFAULT_CONFIG = Inr ''default rules''"
    by (simp_all add: twoProblemsEnv_def exampleEnv_def)
  obtain c s1 where cfg: "getYamlLintConfig exampleEnv exampleDocument ?s = (Inr c, s1)"
    using getYamlLintConfig_total [OF p(1)] by blast
  have eng: "runAll exampleEnv [0x61, 0x3A, 0x20, 0x31] c (fsPath exampleDocument) = Inr [exampleProblem]"
    by (simp add: exampleEnv_def)
  have m: "\<forall>p \<in> set [exampleProblem]. message p \<noteq> []"
    "\<forall>p \<in> set [\<lparr> line = 1, column = 1, message = ''missing document start'',
                       level = ''warning'', rule = Some ''document-start'' \<rparr>, exampleProblem].
       message p \<noteq> []"
    by (simp_all add: exampleProblem_def)
  from lint_replaces_diagnostics [OF en(1) cfg gt eng l m(1)]
  obtain ds where ds: "diagnosticCollection (lint exampleEnv exampleDocument ?s) (uri exampleDocument) = Some ds"
    "length ds = 1" "problemToDiagnostic exampleProblem exampleDocument = Inr (ds ! 0)"
    by auto
  from ds(2) obtain d where "ds = [d]" by (cases ds) auto
  with ds(1,3) have second: "diagnosticCollection (lint exampleEnv exampleDocument ?s) (uri exampleDocument)
    = Some [\<lparr> drange = \<lparr> startLine = 0, startCharacter = 3, endLine = 0, endCharacter = 4 \<rparr>,
                 dmessage = ''truthy value should be one of [false, true]'',
                 severity = Warning, source = Some ''yamllint'', code = Some ''truthy'' \<rparr>]"
    by (simp add: example_diagnostic)
  obtain c0 s2 where cfg0: "getYamlLintConfig twoProblemsEnv exampleDocument ?init = (Inr c0, s2)"
    using getYamlLintConfig_total [OF p(2)] by blast
  have eng0: "runAll twoProblemsEnv [0x61, 0x3A, 0x20, 0x31] c0 (fsPath exampleDocument)
     = Inr [\<lparr> line = 1, column = 1, message = ''missing document start'',
               level = ''warning'', rule = Some ''document-start'' \<rparr>, exampleProblem]"
    by (simp add: twoProblemsEnv_def)
  from lint_replaces_diagnostics [OF en(2) cfg0 gt eng0 l m(2)]
  have first: "map_option length (diagnosticCollection ?s (uri exampleDocument)) = Some 2"
    by auto
  show ?thesis using en(1) l m(1) first second by simp
qed

section \<open>Properties of the debounce timers\<close>































section \<open>Identity of the cached configuration objects\<close>


















end
